theory Spec2Isabelle
  imports Main
begin

section \<open>Values, errors and log records\<close>

text \<open>
  A Go string is a sequence of bytes and is modelled as a \<^typ>\<open>string\<close>, one
  \<^typ>\<open>char\<close> for each byte.  Where the source walks a string rune by rune, the model
  decodes UTF-8 as \<^verbatim>\<open>range\<close> does (section ``SSE wire framing'').
\<close>

abbreviation LF :: char where "LF \<equiv> CHR 0x0A"
abbreviation CR :: char where "CR \<equiv> CHR 0x0D"

text \<open>
  The dynamic values a \<^verbatim>\<open>Data interface{}\<close> field can hold: the kinds this repository
  builds (strings, byte slices, integers, maps and slices of values), the nil interface, and
  the kinds \<^verbatim>\<open>encoding/json\<close> refuses (channels, functions, non-finite floats).
\<close>

datatype float64 = Finite int int | PosInf | NegInf | NaN

datatype go_value =
    VNil
  | VString string
  | VBytes string
  | VBool bool
  | VInt int
  | VFloat float64
  | VSlice "go_value list"
  | VMap "(string \<times> go_value) list"
  | VChan
  | VFunc

text \<open>
  A \<^verbatim>\<open>time.Time\<close> is the number of nanoseconds since the Unix epoch, read from a
  clock that is past the epoch.
\<close>

type_synonym time = nat

text \<open>
  Every \<^verbatim>\<open>error\<close> value the embedded functions build, named after its message.
  \<open>Panic\<close> is not a returned error: it marks a run-time panic (a nil dereference, a send
  on a closed channel).
\<close>

datatype ctx_err = Canceled | DeadlineExceeded

datatype error =
    HubAlreadyRunning
  | HubNotRunning
  | HubShuttingDown
  | TimeoutRegistering
  | TimeoutUnregistering
  | TimeoutBroadcasting
  | ContextCancelled
  | ConnectionNotFound string
  | ClientIsClosed
  | FailedToFormat error
  | FailedToMarshal error
  | SendTimeout
  | WebSocketIsClosed
  | ConnectionClosed
  | ContextErr ctx_err
  | TransportError
  | UnsupportedType
  | UnsupportedValue
  | MessageNil
  | MessageIDEmpty
  | MessageTypeEmpty
  | DataNotSerializable error
  | Panic

datatype log_arg = S string | N nat | E error

datatype log_entry =
    Info string "log_arg list"
  | Warn string "log_arg list"
  | Error string "log_arg list"

section \<open>encoding/json: which values marshal\<close>

text \<open>
  \<^verbatim>\<open>json.Marshal\<close> is library code.  Its failure condition is written out from its
  documentation: channel and function values are an unsupported type, a non-finite float is
  an unsupported value, and a composite fails when one of its members does.  The text it
  produces on success is not needed by any property below and is left as the parameter
  \<open>enc\<close>.
\<close>

fun json_error :: "go_value \<Rightarrow> error option" and
    json_error_list :: "go_value list \<Rightarrow> error option" and
    json_error_fields :: "(string \<times> go_value) list \<Rightarrow> error option" where
  "json_error VNil = None"
| "json_error (VString s) = None"
| "json_error (VBytes b) = None"
| "json_error (VBool b) = None"
| "json_error (VInt i) = None"
| "json_error (VFloat f) = (case f of Finite m e \<Rightarrow> None | _ \<Rightarrow> Some UnsupportedValue)"
| "json_error (VSlice vs) = json_error_list vs"
| "json_error (VMap kvs) = json_error_fields kvs"
| "json_error VChan = Some UnsupportedType"
| "json_error VFunc = Some UnsupportedType"
| "json_error_list [] = None"
| "json_error_list (v # vs) =
     (case json_error v of Some e \<Rightarrow> Some e | None \<Rightarrow> json_error_list vs)"
| "json_error_fields [] = None"
| "json_error_fields (kv # kvs) =
     (case json_error (snd kv) of Some e \<Rightarrow> Some e | None \<Rightarrow> json_error_fields kvs)"

definition json_Marshal :: "(go_value \<Rightarrow> string) \<Rightarrow> go_value \<Rightarrow> error + string" where
  "json_Marshal enc v = (case json_error v of Some e \<Rightarrow> Inl e | None \<Rightarrow> Inr (enc v))"

section \<open>The message envelope\<close>

text \<open>
  \<^verbatim>\<open>type Message struct { ID, Type string; Data interface{}; Headers map[string]string }\<close>.
  A nil \<open>Headers\<close> map is \<open>None\<close>; a \<^verbatim>\<open>*Message\<close> that may be nil is a
  \<open>Message option\<close>.
\<close>

record Message =
  ID :: string
  Type :: string
  Data :: go_value
  Headers :: "(string \<rightharpoonup> string) option"

section \<open>Message builder\<close>

definition MessageTypeNotification :: string where
  "MessageTypeNotification = ''notification''"

definition MessageTypeAlert :: string where
  "MessageTypeAlert = ''alert''"

definition PriorityNormal :: string where
  "PriorityNormal = ''normal''"

definition PriorityHigh :: string where
  "PriorityHigh = ''high''"

text \<open>
  The builder holds one message and every method updates it, so the builder is the message.
  \<^verbatim>\<open>time.Now()\<close> is read several times while a message is built: a \<open>clock\<close> gives
  the successive readings, and a function that has taken \<open>n\<close> of them hands on
  \<open>advance n clk\<close>.  The formatting of a time is library code and a parameter \<open>fmt\<close>:
  from the zone and the layout to the text.
\<close>

type_synonym clock = "nat \<Rightarrow> time"

definition advance :: "nat \<Rightarrow> clock \<Rightarrow> clock" where
  "advance n clk = (\<lambda>i. clk (i + n))"

datatype zone = Local | UTC

type_synonym time_Format = "zone \<Rightarrow> string \<Rightarrow> time \<Rightarrow> string"

definition RFC3339 :: string where
  "RFC3339 = ''2006-01-02T15:04:05Z07:00''"

definition NewMessageBuilder :: Message where
  "NewMessageBuilder = \<lparr>ID = [], Type = [], Data = VNil, Headers = Some Map.empty\<rparr>"

definition WithID :: "string \<Rightarrow> Message \<Rightarrow> Message" where
  "WithID i mb = mb\<lparr>ID := i\<rparr>"

definition WithType :: "string \<Rightarrow> Message \<Rightarrow> Message" where
  "WithType msgType mb = mb\<lparr>Type := msgType\<rparr>"

definition WithData :: "go_value \<Rightarrow> Message \<Rightarrow> Message" where
  "WithData d mb = mb\<lparr>Data := d\<rparr>"

definition WithHeader :: "string \<Rightarrow> string \<Rightarrow> Message \<Rightarrow> Message" where
  "WithHeader key val mb =
     (case Headers mb of
        None \<Rightarrow> mb\<lparr>Headers := Some [key \<mapsto> val]\<rparr>
      | Some h \<Rightarrow> mb\<lparr>Headers := Some (h(key \<mapsto> val))\<rparr>)"

definition WithPriority :: "string \<Rightarrow> Message \<Rightarrow> Message" where
  "WithPriority priority mb = WithHeader ''priority'' priority mb"

definition WithTimestamp :: "time_Format \<Rightarrow> clock \<Rightarrow> Message \<Rightarrow> Message" where
  "WithTimestamp fmt clk mb = WithHeader ''timestamp'' (fmt UTC RFC3339 (clk 0)) mb"

definition charset :: string where
  "charset = ''abcdefghijklmnopqrstuvwxyzABCDEFGHIJKLMNOPQRSTUVWXYZ0123456789''"

text \<open>\<^verbatim>\<open>randomString\<close> reads the clock once for each of its \<open>n\<close> characters.\<close>

definition randomString :: "clock \<Rightarrow> nat \<Rightarrow> string" where
  "randomString clk n = map (\<lambda>i. charset ! (clk i mod length charset)) [0..<n]"

definition generateMessageID :: "time_Format \<Rightarrow> clock \<Rightarrow> string" where
  "generateMessageID fmt clk =
     fmt Local ''20060102150405'' (clk 0) @ ''-'' @ randomString (advance 1 clk) 8"

definition has_timestamp :: "Message \<Rightarrow> bool" where
  "has_timestamp mb =
     (case Headers mb of None \<Rightarrow> False | Some h \<Rightarrow> h ''timestamp'' \<noteq> None)"

definition Build :: "time_Format \<Rightarrow> clock \<Rightarrow> Message \<Rightarrow> Message" where
  "Build fmt clk mb =
     (case (if ID mb = [] then (mb\<lparr>ID := generateMessageID fmt clk\<rparr>, advance 9 clk)
            else (mb, clk)) of
        (mb, clk) \<Rightarrow> if \<not> has_timestamp mb then WithTimestamp fmt clk mb else mb)"

definition NotificationMessage :: "time_Format \<Rightarrow> clock \<Rightarrow> string \<Rightarrow> string \<Rightarrow> Message" where
  "NotificationMessage fmt clk title body =
     Build fmt clk
       (WithPriority PriorityNormal
          (WithData (VMap [(''title'', VString title), (''body'', VString body)])
             (WithType MessageTypeNotification NewMessageBuilder)))"

definition AlertMessage :: "time_Format \<Rightarrow> clock \<Rightarrow> string \<Rightarrow> string \<Rightarrow> Message" where
  "AlertMessage fmt clk level message =
     Build fmt clk
       (WithPriority PriorityHigh
          (WithData (VMap [(''level'', VString level), (''message'', VString message)])
             (WithType MessageTypeAlert NewMessageBuilder)))"

section \<open>Message validator\<close>

definition Validate :: "(go_value \<Rightarrow> string) \<Rightarrow> Message option \<Rightarrow> error option" where
  "Validate enc message =
     (case message of
        None \<Rightarrow> Some MessageNil
      | Some m \<Rightarrow>
          if ID m = [] then Some MessageIDEmpty
          else if Type m = [] then Some MessageTypeEmpty
          else if Data m \<noteq> VNil
          then (case json_Marshal enc (Data m) of
                  Inl err \<Rightarrow> Some (DataNotSerializable err)
                | Inr js \<Rightarrow> None)
          else None)"

section \<open>SSE wire framing\<close>

text \<open>
  \<^verbatim>\<open>for _, char := range s\<close> decodes one UTF-8 sequence at a time.  \<open>rune_width\<close>
  is the table of \<^verbatim>\<open>unicode/utf8\<close>: the number of bytes of the well-formed sequence
  at the head of the string (shortest form only, no surrogate, at most U+10FFFF), or
  \<open>None\<close> when there is none.  On an ill-formed byte the loop gets the replacement
  character U+FFFD and advances one byte.
\<close>

definition byte :: "char \<Rightarrow> nat" where
  "byte b = of_char b"

definition between :: "nat \<Rightarrow> nat \<Rightarrow> char \<Rightarrow> bool" where
  "between lo hi b = (lo \<le> byte b \<and> byte b \<le> hi)"

fun rune_width :: "string \<Rightarrow> nat option" where
  "rune_width [] = None"
| "rune_width (b0 # s) =
     (if byte b0 < 0x80 then Some 1
      else if between 0xC2 0xDF b0 then
        (case s of
           b1 # s1 \<Rightarrow> if between 0x80 0xBF b1 then Some 2 else None
         | [] \<Rightarrow> None)
      else if between 0xE0 0xEF b0 then
        (case s of
           b1 # b2 # s2 \<Rightarrow>
             if between (if byte b0 = 0xE0 then 0xA0 else 0x80)
                        (if byte b0 = 0xED then 0x9F else 0xBF) b1
                \<and> between 0x80 0xBF b2
             then Some 3 else None
         | _ \<Rightarrow> None)
      else if between 0xF0 0xF4 b0 then
        (case s of
           b1 # b2 # b3 # s3 \<Rightarrow>
             if between (if byte b0 = 0xF0 then 0x90 else 0x80)
                        (if byte b0 = 0xF4 then 0x8F else 0xBF) b1
                \<and> between 0x80 0xBF b2 \<and> between 0x80 0xBF b3
             then Some 4 else None
         | _ \<Rightarrow> None)
      else None)"

text \<open>
  A rune is kept as the bytes that \<^verbatim>\<open>string(char)\<close> gives for it: the bytes of the
  sequence it was decoded from (the decoder accepts the shortest form only, so encoding a
  decoded rune gives its bytes back), and \<^verbatim>\<open>EF BF BD\<close> for the replacement character.
  \<open>DecodeRune\<close> returns the rune and the number of bytes it took from the string.
\<close>

definition RuneError :: string where
  "RuneError = [CHR 0xEF, CHR 0xBF, CHR 0xBD]"

definition DecodeRune :: "string \<Rightarrow> string \<times> nat" where
  "DecodeRune s = (case rune_width s of None \<Rightarrow> (RuneError, 1) | Some n \<Rightarrow> (take n s, n))"

text \<open>
  \<^verbatim>\<open>splitLines\<close>: the loop over the runes of \<open>s\<close> carries the lines found so far
  and the line being collected.  The rune at the head is \<open>b\<close> and the \<open>n - 1\<close> bytes
  after it.
\<close>

fun splitLines_loop :: "string \<Rightarrow> string list \<Rightarrow> string \<Rightarrow> string list \<times> string" where
  "splitLines_loop [] lines current = (lines, current)"
| "splitLines_loop (b # s) lines current =
     (case DecodeRune (b # s) of
        (char, n) \<Rightarrow>
          if char = [LF] \<or> char = [CR]
          then splitLines_loop (drop (n - 1) s) (lines @ [current]) []
          else splitLines_loop (drop (n - 1) s) lines (current @ char))"

definition splitLines :: "string \<Rightarrow> string list" where
  "splitLines s =
     (if s = [] then [[]]
      else (case splitLines_loop s [] [] of
              (lines, current) \<Rightarrow>
                if current \<noteq> [] \<or> length lines = 0 then lines @ [current] else lines))"

text \<open>\<^verbatim>\<open>fmt.Sprintf("data: %s\n", line)\<close> and its two siblings.\<close>

definition id_field :: "string \<Rightarrow> string" where
  "id_field i = ''id: '' @ i @ [LF]"

definition event_field :: "string \<Rightarrow> string" where
  "event_field t = ''event: '' @ t @ [LF]"

definition data_field :: "string \<Rightarrow> string" where
  "data_field line = ''data: '' @ line @ [LF]"

text \<open>
  \<^verbatim>\<open>formatSSEMessage\<close>.  The receiver is not read, so it is not a parameter.  The type
  switch on \<open>Data\<close> takes a string or a byte slice verbatim and marshals everything else,
  the nil interface included.
\<close>

definition formatSSEMessage :: "(go_value \<Rightarrow> string) \<Rightarrow> Message \<Rightarrow> error + string" where
  "formatSSEMessage enc message =
     (let result = [];
          result = (if ID message \<noteq> [] then result @ id_field (ID message) else result);
          result = (if Type message \<noteq> [] then result @ event_field (Type message) else result)
      in case (case Data message of
                 VString v \<Rightarrow> Inr v
               | VBytes v \<Rightarrow> Inr v
               | v \<Rightarrow> (case json_Marshal enc v of
                         Inl err \<Rightarrow> Inl (FailedToMarshal err)
                       | Inr jsonData \<Rightarrow> Inr jsonData)) of
           Inl err \<Rightarrow> Inl err
         | Inr data \<Rightarrow>
             Inr (foldl (\<lambda>result line. result @ data_field line) result (splitLines data)
                  @ [LF]))"

section \<open>The environment of one call\<close>

text \<open>
  Every operation is modelled as one step, and what other goroutines do is modelled as
  steps before and after it (for the hub's event loop, the iterations of \<^verbatim>\<open>run\<close>).
  What a step cannot decide by itself is an input:
  \<^item> \<open>now\<close>, the reading of \<^verbatim>\<open>time.Now()\<close>;
  \<^item> \<open>json_text\<close>, the text \<^verbatim>\<open>json.Marshal\<close> produces;
  \<^item> \<open>transport\<close>, what the HTTP response writer does with a write;
  \<^item> \<open>pick\<close>, the random number by which a \<^verbatim>\<open>select\<close> chooses among the
    cases that are ready.
\<close>

datatype write_result = WriteOK | WriteFails | WriteBlocks

record env =
  now :: time
  json_text :: "go_value \<Rightarrow> string"
  transport :: write_result
  pick :: nat

text \<open>The caller's \<^verbatim>\<open>context.Context\<close>, as far as a call observes it.\<close>

datatype ctx = Live | Done ctx_err

text \<open>
  \<^verbatim>\<open>select\<close>: one of the ready cases, chosen at random; with no case ready the call
  blocks until the \<^verbatim>\<open>time.After\<close> case fires, which is the result \<open>None\<close>.
\<close>

definition select :: "nat \<Rightarrow> 'a list \<Rightarrow> 'a option" where
  "select r ready = (if ready = [] then None else Some (ready ! (r mod length ready)))"

section \<open>SSEConnection\<close>

record ResponseWriter =
  header :: "string \<rightharpoonup> string"
  written :: string
  is_flusher :: bool
  flushes :: nat

record SSEConnection =
  sse_id :: string
  sse_writer :: ResponseWriter
  sse_ctx_done :: bool
  sse_closed :: bool
  sse_logger :: "log_entry list"
  sse_lastActivity :: time

definition SSE_IsClosed :: "SSEConnection \<Rightarrow> bool" where
  "SSE_IsClosed c = sse_closed c"

definition SSE_Close :: "SSEConnection \<Rightarrow> error option \<times> SSEConnection" where
  "SSE_Close c =
     (if sse_closed c then (None, c)
      else (None, c\<lparr>sse_closed := True, sse_ctx_done := True,
                     sse_logger := sse_logger c @ [Info ''SSE connection closed'' []]\<rparr>))"

definition SSE_updateActivity :: "time \<Rightarrow> SSEConnection \<Rightarrow> SSEConnection" where
  "SSE_updateActivity t c = c\<lparr>sse_lastActivity := t\<rparr>"

text \<open>
  The goroutine that \<^verbatim>\<open>Send\<close> starts: it writes the frame and, when the write
  succeeded, flushes; its result goes to the channel \<open>done\<close> (\<open>None\<close>: nothing sent yet,
  the write blocks).
\<close>

definition sse_write :: "write_result \<Rightarrow> string \<Rightarrow> ResponseWriter \<Rightarrow> error option option \<times> ResponseWriter" where
  "sse_write tr sseMessage w =
     (case tr of
        WriteBlocks \<Rightarrow> (None, w)
      | WriteFails \<Rightarrow> (Some (Some TransportError), w)
      | WriteOK \<Rightarrow>
          (Some None,
           (if is_flusher w then w\<lparr>written := written w @ sseMessage, flushes := flushes w + 1\<rparr>
            else w\<lparr>written := written w @ sseMessage\<rparr>)))"

datatype sse_case = WriteDone "error option" | CtxDone

definition ctx_Err :: "ctx \<Rightarrow> error option" where
  "ctx_Err ctx = (case ctx of Done e \<Rightarrow> Some (ContextErr e) | Live \<Rightarrow> None)"

definition ctx_ready :: "ctx \<Rightarrow> 'a \<Rightarrow> 'a list" where
  "ctx_ready ctx x = (case ctx of Done e \<Rightarrow> [x] | Live \<Rightarrow> [])"

definition sse_log :: "log_entry \<Rightarrow> SSEConnection \<Rightarrow> SSEConnection" where
  "sse_log l c = c\<lparr>sse_logger := sse_logger c @ [l]\<rparr>"

text \<open>The three outcomes that \<^verbatim>\<open>Send\<close> races, \<open>None\<close> being the ten-second timer.\<close>

fun SSE_Send_select :: "ctx \<Rightarrow> sse_case option \<Rightarrow> SSEConnection \<Rightarrow> error option \<times> SSEConnection" where
  "SSE_Send_select ctx (Some (WriteDone (Some err))) c =
     (Some err, snd (SSE_Close (sse_log (Error ''Failed to write message: %v'' [E err]) c)))"
| "SSE_Send_select ctx (Some (WriteDone None)) c = (None, c)"
| "SSE_Send_select ctx (Some CtxDone) c =
     (ctx_Err ctx, sse_log (Warn ''Send operation cancelled'' []) c)"
| "SSE_Send_select ctx None c =
     (Some SendTimeout, snd (SSE_Close (sse_log (Warn ''Send operation timed out'' []) c)))"

definition SSE_Send :: "env \<Rightarrow> ctx \<Rightarrow> Message option \<Rightarrow> SSEConnection \<Rightarrow> error option \<times> SSEConnection" where
  "SSE_Send ev ctx message c =
     (if SSE_IsClosed c then (Some ClientIsClosed, c)
      else
        let c = SSE_updateActivity (now ev) c in
        case message of
          None \<Rightarrow> (Some Panic, c)
        | Some m \<Rightarrow>
            (case formatSSEMessage (json_text ev) m of
               Inl err \<Rightarrow> (Some (FailedToFormat err), c)
             | Inr sseMessage \<Rightarrow>
                 (case sse_write (transport ev) sseMessage (sse_writer c) of
                    (done, w) \<Rightarrow>
                      SSE_Send_select ctx
                        (select (pick ev)
                           ((case done of Some r \<Rightarrow> [WriteDone r] | None \<Rightarrow> [])
                            @ ctx_ready ctx CtxDone))
                        (c\<lparr>sse_writer := w\<rparr>))))"

section \<open>WebSocketConnection\<close>

text \<open>
  The socket of \<^verbatim>\<open>gorilla/websocket\<close> as far as the connection drives it: the frames
  written, the write deadline, and whether the socket was closed.  A write to a closed
  socket fails and writes nothing.
\<close>

datatype frame = CloseMessage nat string | PingMessage | JSONMessage "Message option"

record websocket_Conn =
  frames :: "frame list"
  writeDeadline :: "time option"
  sock_closed :: bool

definition SetWriteDeadline :: "time \<Rightarrow> websocket_Conn \<Rightarrow> websocket_Conn" where
  "SetWriteDeadline t k = k\<lparr>writeDeadline := Some t\<rparr>"

definition WriteMessage :: "frame \<Rightarrow> websocket_Conn \<Rightarrow> error option \<times> websocket_Conn" where
  "WriteMessage f k =
     (if sock_closed k then (Some TransportError, k)
      else (None, k\<lparr>frames := frames k @ [f]\<rparr>))"

definition websocket_Close :: "websocket_Conn \<Rightarrow> error option \<times> websocket_Conn" where
  "websocket_Close k =
     (if sock_closed k then (Some TransportError, k) else (None, k\<lparr>sock_closed := True\<rparr>))"

text \<open>A buffered channel: its queue, its capacity, and whether it was closed.\<close>

record 'a chan =
  queue :: "'a list"
  capacity :: nat
  chan_closed :: bool

definition make_chan :: "nat \<Rightarrow> 'a chan" where
  "make_chan n = \<lparr>queue = [], capacity = n, chan_closed = False\<rparr>"

definition has_room :: "'a chan \<Rightarrow> bool" where
  "has_room ch = (length (queue ch) < capacity ch)"

definition enqueue :: "'a \<Rightarrow> 'a chan \<Rightarrow> 'a chan" where
  "enqueue x ch = ch\<lparr>queue := queue ch @ [x]\<rparr>"

record WebSocketConnection =
  ws_id :: string
  ws_conn :: websocket_Conn
  ws_ctx_done :: bool
  ws_closed :: bool
  ws_logger :: "log_entry list"
  ws_send :: "Message option chan"
  ws_lastActivity :: time
  ws_writeTimeout :: time
  ws_pongTimeout :: time

definition WS_IsClosed :: "WebSocketConnection \<Rightarrow> bool" where
  "WS_IsClosed c = ws_closed c"

definition CloseNormalClosure :: nat where
  "CloseNormalClosure = 1000"

text \<open>
  \<^verbatim>\<open>Close\<close>.  The results of the close frame's write and of the socket's close are
  dropped, as in the source.
\<close>

definition WS_Close :: "time \<Rightarrow> WebSocketConnection \<Rightarrow> error option \<times> WebSocketConnection" where
  "WS_Close t c =
     (if ws_closed c then (None, c)
      else
        let c = c\<lparr>ws_closed := True\<rparr>;
            c = c\<lparr>ws_ctx_done := True\<rparr>;
            c = c\<lparr>ws_send := (ws_send c)\<lparr>chan_closed := True\<rparr>\<rparr>;
            k = SetWriteDeadline (t + ws_writeTimeout c) (ws_conn c);
            k = snd (WriteMessage (CloseMessage CloseNormalClosure []) k);
            k = snd (websocket_Close k)
        in (None, c\<lparr>ws_conn := k,
                     ws_logger := ws_logger c @ [Info ''WebSocket connection closed'' []]\<rparr>))"

datatype ws_case = SendCase | CallerDone | ConnDone

text \<open>
  \<^verbatim>\<open>Send\<close> only enqueues; the write pump owns the socket.  The send case is ready
  when the queue has room; a send on a closed channel panics.  \<open>None\<close> is the five-second
  timer.
\<close>

fun WS_Send_select :: "ctx \<Rightarrow> Message option \<Rightarrow> ws_case option \<Rightarrow> WebSocketConnection \<Rightarrow> error option \<times> WebSocketConnection" where
  "WS_Send_select ctx message (Some SendCase) c =
     (if chan_closed (ws_send c) then (Some Panic, c)
      else (None, c\<lparr>ws_send := enqueue message (ws_send c)\<rparr>))"
| "WS_Send_select ctx message (Some CallerDone) c = (ctx_Err ctx, c)"
| "WS_Send_select ctx message (Some ConnDone) c = (Some ConnectionClosed, c)"
| "WS_Send_select ctx message None c = (Some SendTimeout, c)"

definition WS_Send :: "env \<Rightarrow> ctx \<Rightarrow> Message option \<Rightarrow> WebSocketConnection \<Rightarrow> error option \<times> WebSocketConnection" where
  "WS_Send ev ctx message c =
     (if WS_IsClosed c then (Some WebSocketIsClosed, c)
      else
        WS_Send_select ctx message
          (select (pick ev)
             ((if chan_closed (ws_send c) \<or> has_room (ws_send c) then [SendCase] else [])
              @ ctx_ready ctx CallerDone
              @ (if ws_ctx_done c then [ConnDone] else [])))
          c)"

section \<open>The Connection interface\<close>

datatype Connection = SSE SSEConnection | WebSocket WebSocketConnection

fun conn_ID :: "Connection \<Rightarrow> string" where
  "conn_ID (SSE c) = sse_id c"
| "conn_ID (WebSocket c) = ws_id c"

fun conn_Type :: "Connection \<Rightarrow> string" where
  "conn_Type (SSE c) = ''sse''"
| "conn_Type (WebSocket c) = ''websocket''"

fun conn_IsClosed :: "Connection \<Rightarrow> bool" where
  "conn_IsClosed (SSE c) = SSE_IsClosed c"
| "conn_IsClosed (WebSocket c) = WS_IsClosed c"

fun conn_Close :: "env \<Rightarrow> Connection \<Rightarrow> error option \<times> Connection" where
  "conn_Close ev (SSE c) = (case SSE_Close c of (err, c') \<Rightarrow> (err, SSE c'))"
| "conn_Close ev (WebSocket c) = (case WS_Close (now ev) c of (err, c') \<Rightarrow> (err, WebSocket c'))"

fun conn_Send :: "env \<Rightarrow> ctx \<Rightarrow> Message option \<Rightarrow> Connection \<Rightarrow> error option \<times> Connection" where
  "conn_Send ev ctx message (SSE c) =
     (case SSE_Send ev ctx message c of (err, c') \<Rightarrow> (err, SSE c'))"
| "conn_Send ev ctx message (WebSocket c) =
     (case WS_Send ev ctx message c of (err, c') \<Rightarrow> (err, WebSocket c'))"

text \<open>What a connection's transport has received: the bytes written, or the frames.\<close>

fun transport_state :: "Connection \<Rightarrow> ResponseWriter + websocket_Conn" where
  "transport_state (SSE c) = Inl (sse_writer c)"
| "transport_state (WebSocket c) = Inr (ws_conn c)"

section \<open>The hub\<close>

text \<open>
  A \<^verbatim>\<open>Connection\<close> held by the hub is a reference to a connection object; the objects
  live in a heap, so that closing a connection through the registry is seen by every holder
  of the reference.  \<^verbatim>\<open>go f()\<close> adds a goroutine to the list of those started; the hub's
  own loop and the senders are named by what they run.
\<close>

type_synonym addr = nat

datatype goroutine =
    RunLoop
  | Watcher addr
  | Sender addr ctx "Message option"
  | BroadcastSender addr "Message option"

record Hub =
  connections :: "string \<rightharpoonup> addr"
  running :: bool
  hub_logger :: "log_entry list"
  register :: "addr chan"
  unregister :: "string chan"
  broadcast :: "Message option chan"
  hub_ctx_done :: bool

record world =
  hub :: Hub
  heap :: "addr \<Rightarrow> Connection"
  goroutines :: "goroutine list"

definition New :: Hub where
  "New = \<lparr>connections = Map.empty, running = False, hub_logger = [],
          register = make_chan 100, unregister = make_chan 100, broadcast = make_chan 1000,
          hub_ctx_done = False\<rparr>"

definition hub_log :: "log_entry \<Rightarrow> world \<Rightarrow> world" where
  "hub_log l w = w\<lparr>hub := (hub w)\<lparr>hub_logger := hub_logger (hub w) @ [l]\<rparr>\<rparr>"

definition go :: "goroutine \<Rightarrow> world \<Rightarrow> world" where
  "go g w = w\<lparr>goroutines := goroutines w @ [g]\<rparr>"

text \<open>
  \<^verbatim>\<open>Start\<close>: the hub's context is derived from the caller's, so it is born cancelled
  when the caller's already is.
\<close>

definition Start :: "ctx \<Rightarrow> world \<Rightarrow> error option \<times> world" where
  "Start ctx w =
     (if running (hub w) then (Some HubAlreadyRunning, w)
      else
        let w = w\<lparr>hub := (hub w)\<lparr>hub_ctx_done := (ctx \<noteq> Live), running := True\<rparr>\<rparr>;
            w = go RunLoop w
        in (None, hub_log (Info ''Hub started successfully'' []) w))"

text \<open>
  A \<^verbatim>\<open>range\<close> over the registry visits its entries in an order the runtime chooses.
  The order is the parameter \<open>ks\<close>, a list of the registry's keys; the loops below walk it
  and look each key up.
\<close>

definition range_of :: "('k \<rightharpoonup> 'v) \<Rightarrow> 'k list \<Rightarrow> bool" where
  "range_of m ks = (distinct ks \<and> set ks = dom m)"



text \<open>
  \<^verbatim>\<open>Stop\<close> holds the lock on the running flag for its whole body and the lock on the
  registry while it closes and clears, so it is one step for every other reader and writer
  of the two.  It does not wait for the event loop: iterations of the loop
  (\<open>run_iteration\<close> below) can come before it and after it.
\<close>

definition IsRunning :: "world \<Rightarrow> bool" where
  "IsRunning w = running (hub w)"

text \<open>
  The three enqueueing operations.  Each ready case of the \<^verbatim>\<open>select\<close> is listed with
  the result of its body; the timer is the result when none is ready.
\<close>

definition RegisterConnection :: "env \<Rightarrow> addr \<Rightarrow> world \<Rightarrow> error option \<times> world" where
  "RegisterConnection ev conn w =
     (if \<not> IsRunning w then (Some HubNotRunning, w)
      else
        case select (pick ev)
               ((if has_room (register (hub w))
                 then [(None, w\<lparr>hub := (hub w)\<lparr>register := enqueue conn (register (hub w))\<rparr>\<rparr>)]
                 else [])
                @ (if hub_ctx_done (hub w) then [(Some HubShuttingDown, w)] else [])) of
          Some r \<Rightarrow> r
        | None \<Rightarrow> (Some TimeoutRegistering, w))"

definition UnregisterConnection :: "env \<Rightarrow> string \<Rightarrow> world \<Rightarrow> error option \<times> world" where
  "UnregisterConnection ev connID w =
     (if \<not> IsRunning w then (Some HubNotRunning, w)
      else
        case select (pick ev)
               ((if has_room (unregister (hub w))
                 then [(None, w\<lparr>hub := (hub w)\<lparr>unregister := enqueue connID (unregister (hub w))\<rparr>\<rparr>)]
                 else [])
                @ (if hub_ctx_done (hub w) then [(Some HubShuttingDown, w)] else [])) of
          Some r \<Rightarrow> r
        | None \<Rightarrow> (Some TimeoutUnregistering, w))"

definition GetConnection :: "string \<Rightarrow> world \<Rightarrow> addr option" where
  "GetConnection connID w = connections (hub w) connID"

definition GetConnectionsByType :: "string list \<Rightarrow> string \<Rightarrow> world \<Rightarrow> addr list" where
  "GetConnectionsByType ks connType w =
     filter (\<lambda>conn. conn_Type (heap w conn) = connType)
       (List.map_filter (connections (hub w)) ks)"


definition Broadcast :: "env \<Rightarrow> ctx \<Rightarrow> Message option \<Rightarrow> world \<Rightarrow> error option \<times> world" where
  "Broadcast ev ctx message w =
     (if \<not> IsRunning w then (Some HubNotRunning, w)
      else
        case select (pick ev)
               ((if has_room (broadcast (hub w))
                 then [(None, w\<lparr>hub := (hub w)\<lparr>broadcast := enqueue message (broadcast (hub w))\<rparr>\<rparr>)]
                 else [])
                @ ctx_ready ctx (Some ContextCancelled, w)
                @ (if hub_ctx_done (hub w) then [(Some HubShuttingDown, w)] else [])) of
          Some r \<Rightarrow> r
        | None \<Rightarrow> (Some TimeoutBroadcasting, w))"

text \<open>
  \<^verbatim>\<open>BroadcastToType\<close> starts one sender per connection of the type and returns; what
  the senders do happens after the call.
\<close>

definition BroadcastToType :: "string list \<Rightarrow> ctx \<Rightarrow> string \<Rightarrow> Message option \<Rightarrow> world \<Rightarrow> error option \<times> world" where
  "BroadcastToType ks ctx connType message w =
     (let conns = GetConnectionsByType ks connType w;
          w = foldl (\<lambda>w c. go (Sender c ctx message) w) w conns
      in (None,
          hub_log (Info ''Broadcasted message to %d connections of type %s''
                     [N (length conns), S connType]) w))"

text \<open>
  \<^verbatim>\<open>SendToConnection\<close>; \<open>ev\<close> is the environment of the send, \<open>ev'\<close> that of the
  unregistration that follows a failed send (its result is dropped).
\<close>

definition SendToConnection :: "env \<Rightarrow> env \<Rightarrow> ctx \<Rightarrow> string \<Rightarrow> Message option \<Rightarrow> world \<Rightarrow> error option \<times> world" where
  "SendToConnection ev ev' ctx connID message w =
     (case GetConnection connID w of
        None \<Rightarrow> (Some (ConnectionNotFound connID), w)
      | Some conn \<Rightarrow>
          (case conn_Send ev ctx message (heap w conn) of
             (err, c) \<Rightarrow>
               let w = w\<lparr>heap := (heap w)(conn := c)\<rparr> in
               (case err of
                  Some e \<Rightarrow>
                    (Some e,
                     snd (UnregisterConnection ev' connID
                            (hub_log (Error ''Failed to send message to connection %s: %v''
                                        [S connID, E e]) w)))
                | None \<Rightarrow> (None, w))))"

text \<open>The event loop's handlers.\<close>

definition handleRegister :: "addr \<Rightarrow> world \<Rightarrow> world" where
  "handleRegister conn w =
     (let c = heap w conn;
          w = w\<lparr>hub := (hub w)\<lparr>connections := (connections (hub w))(conn_ID c \<mapsto> conn)\<rparr>\<rparr>;
          w = hub_log (Info ''Connection %s registered (type: %s)''
                         [S (conn_ID c), S (conn_Type c)]) w
      in go (Watcher conn) w)"

definition handleUnregister :: "env \<Rightarrow> string \<Rightarrow> world \<Rightarrow> world" where
  "handleUnregister ev connID w =
     (case connections (hub w) connID of
        None \<Rightarrow> w
      | Some conn \<Rightarrow>
          let w = w\<lparr>hub := (hub w)\<lparr>connections := (connections (hub w))(connID := None)\<rparr>\<rparr>;
              w = w\<lparr>heap := (heap w)(conn := snd (conn_Close ev (heap w conn)))\<rparr>
          in hub_log (Info ''Connection %s unregistered'' [S connID]) w)"

definition cleanupClosedConnections :: "string list \<Rightarrow> world \<Rightarrow> world" where
  "cleanupClosedConnections ks w =
     (let closedConnections =
            filter (\<lambda>id. case connections (hub w) id of
                            Some conn \<Rightarrow> conn_IsClosed (heap w conn)
                          | None \<Rightarrow> False) ks
      in foldl (\<lambda>w id.
                  hub_log (Info ''Cleaned up closed connection %s'' [S id])
                    (w\<lparr>hub := (hub w)\<lparr>connections := (connections (hub w))(id := None)\<rparr>\<rparr>))
           w closedConnections)"






section \<open>Lines as the segments between terminators\<close>

text \<open>
  The reading of ``split on line breaks'' that \<^verbatim>\<open>splitLines\<close> is compared with:
  every line feed and every carriage return ends a segment, so a text with \<open>n\<close>
  terminators has \<open>n + 1\<close> segments, the last one being what follows the last terminator.
\<close>

fun segments :: "string \<Rightarrow> string list" where
  "segments [] = [[]]"
| "segments (c # cs) =
     (if c = LF \<or> c = CR then [] # segments cs
      else (c # hd (segments cs)) # tl (segments cs))"

text \<open>
  A string is valid UTF-8 when it is a sequence of well-formed sequences.  \<open>runes_text\<close>
  is the text of the runes that a \<^verbatim>\<open>range\<close> over the string yields: the string itself
  when it is valid, and otherwise the string with each ill-formed byte replaced by
  \<^verbatim>\<open>EF BF BD\<close>.
\<close>

fun valid_utf8 :: "string \<Rightarrow> bool" where
  "valid_utf8 [] = True"
| "valid_utf8 (b # s) =
     (case rune_width (b # s) of None \<Rightarrow> False | Some n \<Rightarrow> valid_utf8 (drop (n - 1) s))"

fun runes_text :: "string \<Rightarrow> string" where
  "runes_text [] = []"
| "runes_text (b # s) =
     (case DecodeRune (b # s) of (char, n) \<Rightarrow> char @ runes_text (drop (n - 1) s))"

section \<open>Sample states\<close>

text \<open>
  Concrete objects on which the theorems below are instantiated: an open SSE connection at
  address 0, an open WebSocket connection at every other address, a hub that was never
  started, the same hub started with both connections admitted, and variants of it: one
  connection closed by itself, a registration still waiting in the register channel, a
  cancelled context, a full unregister channel.
\<close>

definition sse0 :: SSEConnection where
  "sse0 = \<lparr>sse_id = ''c1'',
           sse_writer = \<lparr>header = Map.empty, written = [], is_flusher = True, flushes = 0\<rparr>,
           sse_ctx_done = False, sse_closed = False, sse_logger = [], sse_lastActivity = 0\<rparr>"

definition ws0 :: WebSocketConnection where
  "ws0 = \<lparr>ws_id = ''c2'',
          ws_conn = \<lparr>frames = [], writeDeadline = None, sock_closed = False\<rparr>,
          ws_ctx_done = False, ws_closed = False, ws_logger = [],
          ws_send = make_chan 256, ws_lastActivity = 0,
          ws_writeTimeout = 10000000000, ws_pongTimeout = 60000000000\<rparr>"

definition ev0 :: env where
  "ev0 = \<lparr>now = 5, json_text = (\<lambda>v. []), transport = WriteOK, pick = 0\<rparr>"

definition heap0 :: "addr \<Rightarrow> Connection" where
  "heap0 = (\<lambda>a. if a = 0 then SSE sse0 else WebSocket ws0)"

definition msg0 :: Message where
  "msg0 = \<lparr>ID = ''m1'', Type = ''notice'', Data = VString ''line1\<newline>line2'',
           Headers = None\<rparr>"

definition world0 :: world where
  "world0 = \<lparr>hub = New, heap = heap0, goroutines = []\<rparr>"

definition world2 :: world where
  "world2 = handleRegister 1 (handleRegister 0 (snd (Start Live world0)))"

definition world3 :: world where
  "world3 = world2\<lparr>heap := (heap world2)(1 := WebSocket (ws0\<lparr>ws_closed := True\<rparr>))\<rparr>"


definition world_cancelled :: world where
  "world_cancelled = snd (Start (Done Canceled) world0)"

definition world_full :: world where
  "world_full =
     world2\<lparr>hub := (hub world2)
               \<lparr>unregister := (unregister (hub world2))\<lparr>queue := replicate 100 ''c9''\<rparr>\<rparr>\<rparr>"

section \<open>The line splitter\<close>

lemma rune_width_shape:
  assumes "rune_width (b # s) = Some n"
  shows "1 \<le> n \<and> n - 1 \<le> length s \<and> (\<forall>x \<in> set (take (n - 1) s). 0x80 \<le> byte x)
         \<and> (n = 1) = (byte b < 0x80)"
  using assms
  by (auto simp: between_def split: if_splits list.splits)

lemma rune_width_append:
  assumes "rune_width (b # s) = Some n"
  shows "rune_width (b # s @ t) = Some n"
  using assms
  by (auto simp: between_def split: if_splits list.splits)

lemma segments_nonempty: "segments s \<noteq> []"
  by (induction s) simp_all

lemma segments_Cons_terminator_free:
  "\<forall>c \<in> set a. c \<noteq> LF \<and> c \<noteq> CR \<Longrightarrow>
   segments (a @ s) = (a @ hd (segments s)) # tl (segments s)"
  by (induction a) (simp_all add: segments_nonempty)

lemma segments_terminator_free:
  "\<forall>c \<in> set a. c \<noteq> LF \<and> c \<noteq> CR \<Longrightarrow> segments a = [a]"
  using segments_Cons_terminator_free [of a "[]"] by simp

lemma segments_snoc:
  "t = LF \<or> t = CR \<Longrightarrow> segments (s @ [t]) = segments s @ [[]]"
proof (induction s)
  case Nil
  then show ?case by auto
next
  case (Cons c cs)
  then show ?case using segments_nonempty [of cs]
    by (cases "segments cs") auto
qed

lemma segments_snoc_char:
  "t \<noteq> LF \<Longrightarrow> t \<noteq> CR \<Longrightarrow>
   segments (s @ [t]) = butlast (segments s) @ [last (segments s) @ [t]]"
proof (induction s)
  case Nil
  then show ?case by simp
next
  case (Cons c cs)
  then show ?case using segments_nonempty [of cs] segments_nonempty [of "cs @ [t]"]
    by (cases "segments cs") (auto split: if_splits)
qed

lemma last_segments_empty:
  "(last (segments s) = []) = (s = [] \<or> last s = LF \<or> last s = CR)"
proof (cases s rule: rev_cases)
  case Nil
  then show ?thesis by simp
next
  case (snoc ys y)
  then show ?thesis
    by (cases "y = LF \<or> y = CR") (auto simp: segments_snoc segments_snoc_char)
qed

lemma length_segments:
  "length (segments s) = Suc (length (filter (\<lambda>c. c = LF \<or> c = CR) s))"
  using segments_nonempty by (induction s) (auto simp: Suc_pred)

lemma segments_two:
  assumes "x \<noteq> []" and "last (segments x) = []"
  shows "butlast (segments x) \<noteq> []"
proof -
  have "last x = LF \<or> last x = CR" using assms last_segments_empty by blast
  moreover have "last x \<in> set x" using assms(1) by simp
  ultimately have "filter (\<lambda>c. c = LF \<or> c = CR) x \<noteq> []"
    by (auto simp: filter_empty_conv)
  then have "2 \<le> length (segments x)" by (simp add: length_segments Suc_le_eq)
  then show ?thesis by (cases "segments x" rule: rev_cases) auto
qed

lemma high_byte_no_terminator: "0x80 \<le> byte x \<Longrightarrow> x \<noteq> LF \<and> x \<noteq> CR"
  by (auto simp: byte_def)

lemma low_byte_terminator: "byte LF < 0x80 \<and> byte CR < 0x80"
  by (simp add: byte_def)

lemma DecodeRune_invalid:
  "rune_width (b # s) = None \<Longrightarrow> DecodeRune (b # s) = (RuneError, 1)"
  by (simp add: DecodeRune_def)

lemma DecodeRune_valid:
  "rune_width (b # s) = Some n \<Longrightarrow> DecodeRune (b # s) = (b # take (n - 1) s, n)"
  using rune_width_shape [of b s n]
  by (cases n) (simp_all add: DecodeRune_def)

lemma DecodeRune_terminator:
  assumes "rune_width (b # s) = Some n"
  shows "(b # take (n - 1) s = [t]) = (b = t \<and> n = 1)"
  using rune_width_shape [OF assms] by (cases n) auto

lemma rune_terminator_free:
  assumes "rune_width (b # s) = Some n" and "b \<noteq> LF" and "b \<noteq> CR"
  shows "\<forall>c \<in> set (b # take (n - 1) s). c \<noteq> LF \<and> c \<noteq> CR"
  using rune_width_shape [OF assms(1)] assms(2,3) high_byte_no_terminator by auto

lemma RuneError_terminator_free: "\<forall>c \<in> set RuneError. c \<noteq> LF \<and> c \<noteq> CR"
  by (simp add: RuneError_def)

lemma RuneError_not_terminator: "RuneError \<noteq> [t]"
  by (simp add: RuneError_def)

lemma terminator_width:
  assumes "rune_width (b # s) = Some n" and "b = LF \<or> b = CR"
  shows "n = 1"
  using rune_width_shape [OF assms(1)] assms(2) low_byte_terminator by auto

text \<open>
  The loop's invariant: the lines collected are the finished segments of the text of the
  runes, and the line being collected is the open one.
\<close>

lemma splitLines_loop_segments:
  "splitLines_loop s lines current =
     (lines @ butlast ((current @ hd (segments (runes_text s))) # tl (segments (runes_text s))),
      last ((current @ hd (segments (runes_text s))) # tl (segments (runes_text s))))"
proof (induction s lines current rule: splitLines_loop.induct)
  case (1 lines current)
  then show ?case by simp
next
  case (2 b s lines current)
  show ?case
  proof (cases "rune_width (b # s)")
    case None
    let ?r = "runes_text s"
    have d: "DecodeRune (b # s) = (RuneError, 1)" using None by (rule DecodeRune_invalid)
    have ih: "splitLines_loop s lines (current @ RuneError) =
       (lines @ butlast (((current @ RuneError) @ hd (segments ?r)) # tl (segments ?r)),
        last (((current @ RuneError) @ hd (segments ?r)) # tl (segments ?r)))"
      using "2.IH"(2) [of RuneError 1] d by (simp add: RuneError_not_terminator)
    have seg: "segments (runes_text (b # s)) = (RuneError @ hd (segments ?r)) # tl (segments ?r)"
      using d by (simp add: segments_Cons_terminator_free RuneError_terminator_free)
    have lhs: "splitLines_loop (b # s) lines current =
        splitLines_loop s lines (current @ RuneError)"
      using d by (simp add: RuneError_not_terminator)
    show ?thesis unfolding lhs ih seg by simp
  next
    case (Some n)
    let ?rest = "drop (n - 1) s"
    let ?r = "runes_text ?rest"
    have d: "DecodeRune (b # s) = (b # take (n - 1) s, n)" using Some by (rule DecodeRune_valid)
    have ne: "segments ?r \<noteq> []" by (rule segments_nonempty)
    show ?thesis
    proof (cases "b = LF \<or> b = CR")
      case True
      then have n1: "n = 1" using Some terminator_width by blast
      have t: "b # take (n - 1) s = [LF] \<or> b # take (n - 1) s = [CR]"
        using True n1 by auto
      have ih: "splitLines_loop ?rest (lines @ [current]) [] =
         ((lines @ [current]) @ butlast (([] @ hd (segments ?r)) # tl (segments ?r)),
          last (([] @ hd (segments ?r)) # tl (segments ?r)))"
        using "2.IH"(1) [of "b # take (n - 1) s" n] d t by simp
      have seg: "segments (runes_text (b # s)) = [] # segments ?r"
        using d True n1 by auto
      have lhs: "splitLines_loop (b # s) lines current =
          splitLines_loop ?rest (lines @ [current]) []"
        by (simp only: splitLines_loop.simps d prod.case t if_True)
      show ?thesis unfolding lhs ih seg using ne by (cases "segments ?r") simp_all
    next
      case False
      have nt: "\<not> (b # take (n - 1) s = [LF] \<or> b # take (n - 1) s = [CR])"
        using False DecodeRune_terminator [OF Some] by blast
      have ih: "splitLines_loop ?rest lines (current @ b # take (n - 1) s) =
         (lines @ butlast (((current @ b # take (n - 1) s) @ hd (segments ?r)) # tl (segments ?r)),
          last (((current @ b # take (n - 1) s) @ hd (segments ?r)) # tl (segments ?r)))"
        using "2.IH"(2) [of "b # take (n - 1) s" n] d nt by simp
      have seg: "segments (runes_text (b # s)) =
          ((b # take (n - 1) s) @ hd (segments ?r)) # tl (segments ?r)"
      proof -
        have rt: "runes_text (b # s) = (b # take (n - 1) s) @ ?r" using d by simp
        have tf: "\<forall>c \<in> set (b # take (n - 1) s). c \<noteq> LF \<and> c \<noteq> CR"
          using rune_terminator_free [OF Some] False by blast
        show ?thesis unfolding rt by (rule segments_Cons_terminator_free [OF tf])
      qed
      have lhs: "splitLines_loop (b # s) lines current =
          splitLines_loop ?rest lines (current @ b # take (n - 1) s)"
        by (simp only: splitLines_loop.simps d prod.case nt if_False)
      show ?thesis unfolding lhs ih seg by simp
    qed
  qed
qed

lemma runes_text_valid: "valid_utf8 s \<Longrightarrow> runes_text s = s"
proof (induction s rule: valid_utf8.induct)
  case 1
  then show ?case by simp
next
  case (2 b s)
  then obtain n where n: "rune_width (b # s) = Some n"
    by (cases "rune_width (b # s)") auto
  have v: "valid_utf8 (drop (n - 1) s)"
    using "2.prems" n by (simp only: valid_utf8.simps option.case)
  have "runes_text (drop (n - 1) s) = drop (n - 1) s"
    using "2.IH" [OF n v] .
  then show ?case using DecodeRune_valid [OF n] by simp
qed

lemma valid_utf8_append: "valid_utf8 a \<Longrightarrow> valid_utf8 b \<Longrightarrow> valid_utf8 (a @ b)"
proof (induction a rule: valid_utf8.induct)
  case 1
  then show ?case by simp
next
  case (2 c s)
  then obtain n where n: "rune_width (c # s) = Some n"
    by (cases "rune_width (c # s)") auto
  have v: "valid_utf8 (drop (n - 1) s)"
    using "2.prems"(1) n by (simp only: valid_utf8.simps option.case)
  have rest: "valid_utf8 (drop (n - 1) s @ b)"
    using "2.IH" [OF n v "2.prems"(2)] .
  have len: "n - 1 \<le> length s" using rune_width_shape [OF n] by simp
  have n': "rune_width (c # s @ b) = Some n" using n by (rule rune_width_append)
  have "valid_utf8 (c # (s @ b)) = valid_utf8 (drop (n - 1) (s @ b))"
    using n' by (simp only: valid_utf8.simps option.case)
  then show ?case using rest len by simp
qed

lemma runes_text_empty: "(runes_text s = []) = (s = [])"
proof (cases s)
  case Nil
  then show ?thesis by simp
next
  case (Cons b r)
  show ?thesis
  proof (cases "rune_width (b # r)")
    case None
    then show ?thesis using Cons DecodeRune_invalid [OF None]
      by (simp add: RuneError_def del: rune_width.simps)
  next
    case (Some n)
    then show ?thesis using Cons DecodeRune_valid [OF Some]
      by (simp del: rune_width.simps)
  qed
qed

lemma splitLines_runes:
  "splitLines s =
     (if s \<noteq> [] \<and> last (segments (runes_text s)) = []
      then butlast (segments (runes_text s)) else segments (runes_text s))"
proof (cases "s = []")
  case True
  then show ?thesis by (simp add: splitLines_def)
next
  case False
  let ?segs = "segments (runes_text s)"
  have ne: "?segs \<noteq> []" by (rule segments_nonempty)
  have two: "last ?segs = [] \<Longrightarrow> butlast ?segs \<noteq> []"
    using False segments_two [of "runes_text s"] by (simp add: runes_text_empty)
  have "splitLines_loop s [] [] = (butlast ?segs, last ?segs)"
    using ne by (simp add: splitLines_loop_segments)
  then show ?thesis
    using False ne two by (auto simp: splitLines_def)
qed

lemma splitLines_segments:
  "valid_utf8 s \<Longrightarrow>
   splitLines s =
     (if s \<noteq> [] \<and> last (segments s) = [] then butlast (segments s) else segments s)"
  by (simp only: splitLines_runes runes_text_valid)

lemma valid_terminator: "t = LF \<or> t = CR \<Longrightarrow> valid_utf8 [t]"
  by (auto simp: byte_def)

text \<open>
  C9, as amended.  \<^verbatim>\<open>splitLines\<close> returns the segments between terminators of the
  text of the payload's runes, without the empty segment after a final terminator; that
  text is the payload itself when the payload is valid UTF-8.  So, on valid UTF-8, every
  line feed and every carriage return ends a line by itself: a text with \<open>n\<close> terminators
  has \<open>n + 1\<close> segments, and a payload \<open>s @ [t]\<close> that ends in a terminator \<open>t\<close> has the
  segments of \<open>s\<close> as its lines.  \<^verbatim>\<open>a\r\nb\<close> has the lines \<open>a\<close>, the empty line and
  \<open>b\<close>; \<^verbatim>\<open>a\n\<close> and \<^verbatim>\<open>a\r\<close> have the one line \<open>a\<close>; and \<^verbatim>\<open>a\r\n\<close> has the
  lines \<open>a\<close> and the empty line.
\<close>

theorem splitLines_terminators:
  "splitLines s =
     (if s \<noteq> [] \<and> last (segments (runes_text s)) = []
      then butlast (segments (runes_text s)) else segments (runes_text s))
   \<and> (valid_utf8 s \<longrightarrow> runes_text s = s)
   \<and> (valid_utf8 s \<and> (t = LF \<or> t = CR) \<longrightarrow> splitLines (s @ [t]) = segments s)
   \<and> (valid_utf8 s \<and> (s = [] \<or> (last s \<noteq> LF \<and> last s \<noteq> CR))
        \<longrightarrow> splitLines s = segments s)
   \<and> length (segments s) = Suc (length (filter (\<lambda>c. c = LF \<or> c = CR) s))
   \<and> (valid_utf8 a \<and> valid_utf8 b
        \<and> (\<forall>c \<in> set a. c \<noteq> LF \<and> c \<noteq> CR) \<and> (\<forall>c \<in> set b. c \<noteq> LF \<and> c \<noteq> CR) \<and> b \<noteq> []
        \<longrightarrow> splitLines (a @ [CR, LF] @ b) = [a, [], b])
   \<and> (valid_utf8 a \<and> (\<forall>c \<in> set a. c \<noteq> LF \<and> c \<noteq> CR)
        \<longrightarrow> splitLines (a @ [LF]) = [a] \<and> splitLines (a @ [CR]) = [a]
            \<and> splitLines (a @ [CR, LF]) = [a, []])"
proof -
  have crlf_valid: "valid_utf8 [CR, LF]" by (simp add: byte_def)
  have snoc: "valid_utf8 s \<and> (t = LF \<or> t = CR) \<longrightarrow> splitLines (s @ [t]) = segments s"
  proof
    assume h: "valid_utf8 s \<and> (t = LF \<or> t = CR)"
    then have "valid_utf8 (s @ [t])" using valid_utf8_append valid_terminator by blast
    then show "splitLines (s @ [t]) = segments s"
      using h by (auto simp: splitLines_segments segments_snoc)
  qed
  have open_end: "valid_utf8 s \<and> (s = [] \<or> (last s \<noteq> LF \<and> last s \<noteq> CR))
        \<longrightarrow> splitLines s = segments s"
    by (auto simp: splitLines_segments last_segments_empty)
  have crlf: "splitLines (a @ [CR, LF] @ b) = [a, [], b]"
    if "valid_utf8 a" "valid_utf8 b" "\<forall>c \<in> set a. c \<noteq> LF \<and> c \<noteq> CR"
      "\<forall>c \<in> set b. c \<noteq> LF \<and> c \<noteq> CR" "b \<noteq> []"
  proof -
    have v: "valid_utf8 (a @ [CR, LF] @ b)"
      using that(1,2) crlf_valid by (intro valid_utf8_append)
    have "segments (a @ [CR, LF] @ b) = [a, [], b]"
      using that by (simp add: segments_Cons_terminator_free segments_terminator_free)
    then show ?thesis using that(5) v by (simp add: splitLines_segments)
  qed
  have single: "splitLines (a @ [LF]) = [a] \<and> splitLines (a @ [CR]) = [a]
            \<and> splitLines (a @ [CR, LF]) = [a, []]"
    if va: "valid_utf8 a" and a: "\<forall>c \<in> set a. c \<noteq> LF \<and> c \<noteq> CR"
  proof -
    have v1: "valid_utf8 (a @ [LF])"
      by (rule valid_utf8_append [OF va]) (simp add: byte_def)
    have v2: "valid_utf8 (a @ [CR])"
      by (rule valid_utf8_append [OF va]) (simp add: byte_def)
    have v3: "valid_utf8 (a @ [CR, LF])"
      by (rule valid_utf8_append [OF va crlf_valid])
    have s1: "segments (a @ [LF]) = [a, []]"
      using a by (simp add: segments_Cons_terminator_free)
    have s2: "segments (a @ [CR]) = [a, []]"
      using a by (simp add: segments_Cons_terminator_free)
    have s3: "segments (a @ [CR, LF]) = [a, [], []]"
      using a by (simp add: segments_Cons_terminator_free)
    have "splitLines (a @ [LF]) = [a]"
      unfolding splitLines_segments [OF v1] s1 by simp
    moreover have "splitLines (a @ [CR]) = [a]"
      unfolding splitLines_segments [OF v2] s2 by simp
    moreover have "splitLines (a @ [CR, LF]) = [a, []]"
      unfolding splitLines_segments [OF v3] s3 by simp
    ultimately show ?thesis by blast
  qed
  have c1: "splitLines s =
     (if s \<noteq> [] \<and> last (segments (runes_text s)) = []
      then butlast (segments (runes_text s)) else segments (runes_text s))"
    by (rule splitLines_runes)
  have c2: "valid_utf8 s \<longrightarrow> runes_text s = s"
    by (simp add: runes_text_valid)
  have c5: "length (segments s) = Suc (length (filter (\<lambda>c. c = LF \<or> c = CR) s))"
    by (rule length_segments)
  have c6: "valid_utf8 a \<and> valid_utf8 b
        \<and> (\<forall>c \<in> set a. c \<noteq> LF \<and> c \<noteq> CR) \<and> (\<forall>c \<in> set b. c \<noteq> LF \<and> c \<noteq> CR) \<and> b \<noteq> []
        \<longrightarrow> splitLines (a @ [CR, LF] @ b) = [a, [], b]"
    using crlf by blast
  have c7: "valid_utf8 a \<and> (\<forall>c \<in> set a. c \<noteq> LF \<and> c \<noteq> CR)
        \<longrightarrow> splitLines (a @ [LF]) = [a] \<and> splitLines (a @ [CR]) = [a]
            \<and> splitLines (a @ [CR, LF]) = [a, []]"
    using single by blast
  show ?thesis
    by (rule conjI [OF c1 conjI [OF c2 conjI [OF snoc conjI [OF open_end
          conjI [OF c5 conjI [OF c6 c7]]]]]])
qed

text \<open>
  The theorem at \<open>s\<close> = \<^verbatim>\<open>x\ny\<close>, \<open>t\<close> the line feed, \<open>a\<close> = \<^verbatim>\<open>one\<close> and
  \<open>b\<close> = \<^verbatim>\<open>two\<close>, all valid UTF-8.
\<close>

theorem splitLines_terminators_witness:
  "valid_utf8 ''x\<newline>y'' \<and> valid_utf8 ''one'' \<and> valid_utf8 ''two''
   \<and> splitLines (''x\<newline>y'' @ [LF]) = [''x'', ''y'']
   \<and> splitLines ''x\<newline>y'' = [''x'', ''y'']
   \<and> length (segments ''x\<newline>y'') = 2
   \<and> splitLines (''one'' @ [CR, LF] @ ''two'') = [''one'', [], ''two'']
   \<and> splitLines (''one'' @ [LF]) = [''one'']
   \<and> splitLines (''one'' @ [CR]) = [''one'']
   \<and> splitLines (''one'' @ [CR, LF]) = [''one'', []]"
  using splitLines_terminators [of "''x\<newline>y''" LF "''one''" "''two''"]
  by (simp add: byte_def)

text \<open>
  The claim as stated fails where the payload ends in two terminators, the pair
  \<^verbatim>\<open>\r\n\<close> included: the payload \<^verbatim>\<open>a\r\n\<close> is valid UTF-8, ends in a line
  terminator, and its frame ends in an empty data line.
\<close>

theorem splitLines_terminators_counterexample:
  "valid_utf8 (''a'' @ [CR, LF])
   \<and> last (''a'' @ [CR, LF]) = LF
   \<and> last (splitLines (''a'' @ [CR, LF])) = []
   \<and> formatSSEMessage (json_text ev0) (msg0\<lparr>Data := VString (''a'' @ [CR, LF])\<rparr>)
      = Inr ''id: m1\<newline>event: notice\<newline>data: a\<newline>data: \<newline>\<newline>''"
  by (simp add: formatSSEMessage_def splitLines_def DecodeRune_def byte_def id_field_def
      event_field_def data_field_def msg0_def)

text \<open>
  A byte that is no well-formed sequence comes out as the replacement character, so the
  lines of such a payload are not pieces of the payload.
\<close>

lemma splitLines_invalid_byte:
  "\<not> valid_utf8 [CHR 0xFF, LF] \<and> splitLines [CHR 0xFF, LF] = [RuneError]"
  by (simp add: splitLines_def DecodeRune_def byte_def between_def RuneError_def)

section \<open>Message framing and validation\<close>

lemma foldl_data_fields:
  "foldl (\<lambda>result line. result @ f line) acc xs = acc @ concat (map f xs)"
  by (induction xs arbitrary: acc) simp_all

text \<open>
  C2.  A message with a non-empty id, a non-empty type and a string payload is framed as
  \<^verbatim>\<open>id: <id>\n\<close>, \<^verbatim>\<open>event: <type>\n\<close>, one \<^verbatim>\<open>data: <line>\n\<close> for each line that
  \<^verbatim>\<open>splitLines\<close> finds in the payload, and a closing blank line.  The lines of a
  payload that is valid UTF-8 are its segments between terminators, without the empty
  segment after a final terminator; the empty payload has the one empty line; and the
  message \<open>m1\<close>/\<open>notice\<close> with payload \<^verbatim>\<open>line1\nline2\<close> gives exactly the bytes of
  the specification.
\<close>

theorem formatSSEMessage_string_payload:
  assumes "ID m \<noteq> []" and "Type m \<noteq> []" and "Data m = VString s"
  shows "formatSSEMessage enc m =
           Inr (''id: '' @ ID m @ [LF] @ ''event: '' @ Type m @ [LF]
                @ concat (map (\<lambda>line. ''data: '' @ line @ [LF]) (splitLines s)) @ [LF])
         \<and> (valid_utf8 s \<longrightarrow>
              splitLines s =
                (if s \<noteq> [] \<and> last (segments s) = [] then butlast (segments s)
                 else segments s))
         \<and> splitLines [] = [[]]
         \<and> formatSSEMessage enc
              \<lparr>ID = ''m1'', Type = ''notice'', Data = VString ''line1\<newline>line2'',
               Headers = h\<rparr>
            = Inr ''id: m1\<newline>event: notice\<newline>data: line1\<newline>data: line2\<newline>\<newline>''"
proof -
  have general: "formatSSEMessage enc m =
           Inr (''id: '' @ ID m @ [LF] @ ''event: '' @ Type m @ [LF]
                @ concat (map (\<lambda>line. ''data: '' @ line @ [LF]) (splitLines s)) @ [LF])"
    using assms
    by (simp add: formatSSEMessage_def foldl_data_fields id_field_def event_field_def
        data_field_def)
  have lines: "valid_utf8 s \<longrightarrow>
              splitLines s =
                (if s \<noteq> [] \<and> last (segments s) = [] then butlast (segments s)
                 else segments s)"
    using splitLines_segments by blast
  have empty: "splitLines [] = [[]]"
    by (simp add: splitLines_def)
  have literal: "formatSSEMessage enc
              \<lparr>ID = ''m1'', Type = ''notice'', Data = VString ''line1\<newline>line2'',
               Headers = h\<rparr>
            = Inr ''id: m1\<newline>event: notice\<newline>data: line1\<newline>data: line2\<newline>\<newline>''"
    by (simp add: formatSSEMessage_def splitLines_def DecodeRune_def byte_def id_field_def
        event_field_def data_field_def)
  show ?thesis
    by (rule conjI [OF general conjI [OF lines conjI [OF empty literal]]])
qed

text \<open>The theorem at the empty payload: one empty data line, then the blank line.\<close>

theorem formatSSEMessage_string_payload_witness:
  "ID (msg0\<lparr>Data := VString []\<rparr>) \<noteq> []
   \<and> Type (msg0\<lparr>Data := VString []\<rparr>) \<noteq> []
   \<and> Data (msg0\<lparr>Data := VString []\<rparr>) = VString []
   \<and> valid_utf8 []
   \<and> formatSSEMessage (json_text ev0) (msg0\<lparr>Data := VString []\<rparr>)
      = Inr ''id: m1\<newline>event: notice\<newline>data: \<newline>\<newline>''"
  using formatSSEMessage_string_payload
    [of "msg0\<lparr>Data := VString []\<rparr>" "[]" "json_text ev0"]
  by (simp add: msg0_def splitLines_def)

text \<open>
  C4.  \<^verbatim>\<open>Validate\<close> returns an error exactly when the message is nil, or its id is
  empty, or its type is empty, or its data is not the nil interface and
  \<^verbatim>\<open>json.Marshal\<close> fails on it.
\<close>

theorem Validate_rejects_iff:
  "(Validate enc message \<noteq> None) =
     (message = None
      \<or> (\<exists>m. message = Some m
             \<and> (ID m = [] \<or> Type m = []
                 \<or> (Data m \<noteq> VNil \<and> (\<exists>err. json_Marshal enc (Data m) = Inl err)))))"
  by (cases message) (auto simp: Validate_def split: sum.splits)

lemma Build_fresh:
  assumes "ID mb = []" and "Headers mb = Some h" and "h ''timestamp'' = None"
  shows "Build fmt clk mb =
           mb\<lparr>ID := generateMessageID fmt clk,
               Headers := Some (h(''timestamp'' \<mapsto> fmt UTC RFC3339 (clk 9)))\<rparr>"
  using assms
  by (simp add: Build_def has_timestamp_def WithTimestamp_def WithHeader_def advance_def)

lemma generateMessageID_nonempty: "generateMessageID fmt clk \<noteq> []"
  by (simp add: generateMessageID_def)

text \<open>
  C10.  For all arguments, all clocks and all time formats, \<^verbatim>\<open>NotificationMessage\<close>
  and \<^verbatim>\<open>AlertMessage\<close> build a message that \<^verbatim>\<open>Validate\<close> accepts: its id is the
  generated one and is not empty, its type is set, its data marshals, and its headers hold
  a priority and a timestamp.
\<close>

theorem factories_build_valid_messages:
  "Validate enc (Some (NotificationMessage fmt clk title text)) = None
   \<and> ID (NotificationMessage fmt clk title text) = generateMessageID fmt clk
   \<and> ID (NotificationMessage fmt clk title text) \<noteq> []
   \<and> Type (NotificationMessage fmt clk title text) = ''notification''
   \<and> json_error (Data (NotificationMessage fmt clk title text)) = None
   \<and> (\<exists>h p t. Headers (NotificationMessage fmt clk title text) = Some h
          \<and> h ''priority'' = Some p \<and> h ''timestamp'' = Some t)
   \<and> Validate enc (Some (AlertMessage fmt clk level text)) = None
   \<and> ID (AlertMessage fmt clk level text) = generateMessageID fmt clk
   \<and> ID (AlertMessage fmt clk level text) \<noteq> []
   \<and> Type (AlertMessage fmt clk level text) = ''alert''
   \<and> json_error (Data (AlertMessage fmt clk level text)) = None
   \<and> (\<exists>h p t. Headers (AlertMessage fmt clk level text) = Some h
          \<and> h ''priority'' = Some p \<and> h ''timestamp'' = Some t)"
proof -
  have n: "NotificationMessage fmt clk title text =
      \<lparr>ID = generateMessageID fmt clk, Type = ''notification'',
       Data = VMap [(''title'', VString title), (''body'', VString text)],
       Headers = Some [''priority'' \<mapsto> ''normal'',
                       ''timestamp'' \<mapsto> fmt UTC RFC3339 (clk 9)]\<rparr>"
    unfolding NotificationMessage_def
    by (subst Build_fresh [where h = "[''priority'' \<mapsto> ''normal'']"])
       (simp_all add: WithPriority_def WithHeader_def WithData_def WithType_def
          NewMessageBuilder_def MessageTypeNotification_def PriorityNormal_def)
  have a: "AlertMessage fmt clk level text =
      \<lparr>ID = generateMessageID fmt clk, Type = ''alert'',
       Data = VMap [(''level'', VString level), (''message'', VString text)],
       Headers = Some [''priority'' \<mapsto> ''high'',
                       ''timestamp'' \<mapsto> fmt UTC RFC3339 (clk 9)]\<rparr>"
    unfolding AlertMessage_def
    by (subst Build_fresh [where h = "[''priority'' \<mapsto> ''high'']"])
       (simp_all add: WithPriority_def WithHeader_def WithData_def WithType_def
          NewMessageBuilder_def MessageTypeAlert_def PriorityHigh_def)
  show ?thesis
    unfolding n a
    by (simp add: Validate_def json_Marshal_def generateMessageID_nonempty)
qed

section \<open>Connections\<close>

text \<open>
  C5.  \<^verbatim>\<open>Send\<close> on a connection whose closed flag is set returns an error, for every
  context and every message, and returns the connection as it was: nothing is written to
  the response writer or the socket, and nothing is enqueued.
\<close>

theorem Send_on_closed_connection:
  assumes "conn_IsClosed c"
  shows "conn_Send ev ctx message c =
           (Some (case c of SSE x \<Rightarrow> ClientIsClosed | WebSocket x \<Rightarrow> WebSocketIsClosed), c)
         \<and> fst (conn_Send ev ctx message c) \<noteq> None
         \<and> transport_state (snd (conn_Send ev ctx message c)) = transport_state c"
  using assms by (cases c) (simp_all add: SSE_Send_def WS_Send_def)

theorem Send_on_closed_connection_witness:
  "conn_IsClosed (WebSocket (ws0\<lparr>ws_closed := True\<rparr>))
   \<and> conn_Send ev0 Live (Some msg0) (WebSocket (ws0\<lparr>ws_closed := True\<rparr>))
      = (Some WebSocketIsClosed, WebSocket (ws0\<lparr>ws_closed := True\<rparr>))"
  using Send_on_closed_connection [of "WebSocket (ws0\<lparr>ws_closed := True\<rparr>)" ev0 Live
      "Some msg0"]
  by (simp add: WS_IsClosed_def)

text \<open>
  C6.  After \<^verbatim>\<open>Close\<close> the connection reports closed; \<^verbatim>\<open>Close\<close> returns no error;
  a second \<^verbatim>\<open>Close\<close>, and any \<^verbatim>\<open>Close\<close> of a connection that is already closed,
  returns no error and leaves the connection exactly as it was.
\<close>

theorem Close_is_idempotent:
  "conn_IsClosed (snd (conn_Close ev c))
   \<and> fst (conn_Close ev c) = None
   \<and> conn_Close ev' (snd (conn_Close ev c)) = (None, snd (conn_Close ev c))
   \<and> (conn_IsClosed c \<longrightarrow> conn_Close ev c = (None, c))"
  by (cases c)
     (simp_all add: SSE_Close_def WS_Close_def SSE_IsClosed_def WS_IsClosed_def Let_def)

theorem Close_is_idempotent_witness:
  "conn_IsClosed (snd (conn_Close ev0 (SSE sse0)))
   \<and> conn_IsClosed (SSE (sse0\<lparr>sse_closed := True\<rparr>))
   \<and> conn_Close ev0 (SSE (sse0\<lparr>sse_closed := True\<rparr>))
      = (None, SSE (sse0\<lparr>sse_closed := True\<rparr>))"
  using Close_is_idempotent [of ev0 "SSE (sse0\<lparr>sse_closed := True\<rparr>)" ev0]
    Close_is_idempotent [of ev0 "SSE sse0" ev0]
  by (simp add: SSE_IsClosed_def)

section \<open>The hub: stopping\<close>








lemma world2_registry:
  "connections (hub world2) = [''c1'' \<mapsto> 0, ''c2'' \<mapsto> 1] \<and> IsRunning world2
   \<and> heap world2 = heap0"
  by (simp add: world2_def world0_def handleRegister_def Start_def New_def hub_log_def go_def
      heap0_def sse0_def ws0_def Let_def IsRunning_def)












section \<open>The hub: the cleanup sweep\<close>

lemma sweep_heap:
  "heap (foldl (\<lambda>w id. hub_log (l id)
                  (w\<lparr>hub := (hub w)\<lparr>connections := (connections (hub w))(id := None)\<rparr>\<rparr>))
           w ids) = heap w"
  by (induction ids arbitrary: w) (simp_all add: hub_log_def)

lemma sweep_connections:
  "connections (hub (foldl (\<lambda>w id. hub_log (l id)
                  (w\<lparr>hub := (hub w)\<lparr>connections := (connections (hub w))(id := None)\<rparr>\<rparr>))
           w ids)) id' = (if id' \<in> set ids then None else connections (hub w) id')"
  by (induction ids arbitrary: w) (simp_all add: hub_log_def)

text \<open>
  C8.  One run of \<^verbatim>\<open>cleanupClosedConnections\<close> changes no connection; every entry it
  leaves in the registry was there before and its connection does not report closed; and
  every entry whose connection does not report closed is still there, with the same
  connection.  The hypothesis says that \<open>ks\<close> is the order in which the loop visits the
  registry.
\<close>

theorem cleanup_evicts_exactly_the_closed:
  assumes "range_of (connections (hub w)) ks"
  shows "heap (cleanupClosedConnections ks w) = heap w
         \<and> (\<forall>id conn. GetConnection id (cleanupClosedConnections ks w) = Some conn
               \<longrightarrow> GetConnection id w = Some conn
                   \<and> \<not> conn_IsClosed (heap (cleanupClosedConnections ks w) conn))
         \<and> (\<forall>id conn. GetConnection id w = Some conn \<and> \<not> conn_IsClosed (heap w conn)
               \<longrightarrow> GetConnection id (cleanupClosedConnections ks w) = Some conn)"
proof -
  have ks: "id \<in> set ks" if "connections (hub w) id = Some conn" for id conn
    using that assms by (auto simp: range_of_def)
  show ?thesis
    unfolding cleanupClosedConnections_def Let_def GetConnection_def
      sweep_heap sweep_connections
    using ks by (auto split: if_splits option.splits)
qed

text \<open>
  The theorem on the hub whose WebSocket connection \<open>c2\<close> closed by itself: the sweep
  keeps \<open>c1\<close> and evicts \<open>c2\<close>.
\<close>

theorem cleanup_evicts_exactly_the_closed_witness:
  "range_of (connections (hub world3)) [''c1'', ''c2'']
   \<and> GetConnection ''c1'' world3 = Some 0 \<and> \<not> conn_IsClosed (heap world3 0)
   \<and> GetConnection ''c2'' world3 = Some 1 \<and> conn_IsClosed (heap world3 1)
   \<and> GetConnection ''c1'' (cleanupClosedConnections [''c1'', ''c2''] world3) = Some 0
   \<and> GetConnection ''c2'' (cleanupClosedConnections [''c1'', ''c2''] world3) = None"
proof -
  let ?w = "cleanupClosedConnections [''c1'', ''c2''] world3"
  have reg: "connections (hub world3) = [''c1'' \<mapsto> 0, ''c2'' \<mapsto> 1]"
    by (simp add: world3_def world2_registry)
  have r: "range_of (connections (hub world3)) [''c1'', ''c2'']"
    by (auto simp: reg range_of_def)
  have g1: "GetConnection ''c1'' world3 = Some 0"
    and g2: "GetConnection ''c2'' world3 = Some 1"
    by (simp_all add: GetConnection_def reg)
  have o1: "\<not> conn_IsClosed (heap world3 0)"
    and o2: "conn_IsClosed (heap world3 1)"
    by (simp_all add: world3_def world2_registry heap0_def sse0_def SSE_IsClosed_def
        WS_IsClosed_def)
  note inst = cleanup_evicts_exactly_the_closed [OF r]
  from inst have h: "heap ?w = heap world3" by (rule conjunct1)
  from inst have kept: "\<forall>id conn. GetConnection id ?w = Some conn
               \<longrightarrow> GetConnection id world3 = Some conn \<and> \<not> conn_IsClosed (heap ?w conn)"
    by (rule conjunct1 [OF conjunct2])
  from inst have stays: "\<forall>id conn. GetConnection id world3 = Some conn
               \<and> \<not> conn_IsClosed (heap world3 conn) \<longrightarrow> GetConnection id ?w = Some conn"
    by (rule conjunct2 [OF conjunct2])
  have c1: "GetConnection ''c1'' ?w = Some 0"
    using stays g1 o1 by blast
  have c2: "GetConnection ''c2'' ?w = None"
  proof (cases "GetConnection ''c2'' ?w")
    case None
    then show ?thesis .
  next
    case (Some x)
    with kept have "GetConnection ''c2'' world3 = Some x" and "\<not> conn_IsClosed (heap ?w x)"
      by blast+
    with g2 h o2 show ?thesis by simp
  qed
  from r g1 g2 o1 o2 c1 c2 show ?thesis by blast
qed

section \<open>The hub: unregistration\<close>

text \<open>
  C7, as amended.  For an id that the registry does not hold, \<^verbatim>\<open>handleUnregister\<close>
  leaves the whole state as it was: the registry, every connection, the log.  On a running
  hub the result of \<^verbatim>\<open>UnregisterConnection\<close> is decided by the unregister channel and
  the hub's context alone, never by the registry, so an unknown id is treated as a
  registered one: with room in the channel and a live context the id is enqueued and no
  error returned; with room and a cancelled context the \<^verbatim>\<open>select\<close> takes either case
  (in the model the even picks enqueue, the odd ones return the shutting-down error);
  with a full channel the error is the shutting-down one when the context is cancelled and
  the timeout otherwise.
\<close>

theorem unregister_unknown_id:
  "(connections (hub w) connID = None \<longrightarrow> handleUnregister ev connID w = w)
   \<and> (IsRunning w \<longrightarrow>
        UnregisterConnection ev connID w =
          (if has_room (unregister (hub w)) \<and> (\<not> hub_ctx_done (hub w) \<or> even (pick ev))
           then (None,
                 w\<lparr>hub := (hub w)\<lparr>unregister := enqueue connID (unregister (hub w))\<rparr>\<rparr>)
           else if hub_ctx_done (hub w) then (Some HubShuttingDown, w)
           else (Some TimeoutUnregistering, w)))
   \<and> fst (UnregisterConnection ev connID (w\<lparr>hub := (hub w)\<lparr>connections := reg\<rparr>\<rparr>))
       = fst (UnregisterConnection ev connID w)"
proof -
  have a: "connections (hub w) connID = None \<longrightarrow> handleUnregister ev connID w = w"
    by (simp add: handleUnregister_def)
  have two: "[x, y] ! (n mod 2) = (if even n then x else y)" for x y :: "'a" and n :: nat
  proof (cases "even n")
    case True
    then have "n mod 2 = 0" by presburger
    then show ?thesis using True by simp
  next
    case False
    then have "n mod 2 = 1" by presburger
    then show ?thesis using False by simp
  qed
  have two': "[x, y] ! (n mod Suc (Suc 0)) = (if even n then x else y)"
    for x y :: "'a" and n :: nat
    unfolding numeral_2_eq_2 [symmetric] by (rule two)
  have b: "IsRunning w \<longrightarrow>
        UnregisterConnection ev connID w =
          (if has_room (unregister (hub w)) \<and> (\<not> hub_ctx_done (hub w) \<or> even (pick ev))
           then (None,
                 w\<lparr>hub := (hub w)\<lparr>unregister := enqueue connID (unregister (hub w))\<rparr>\<rparr>)
           else if hub_ctx_done (hub w) then (Some HubShuttingDown, w)
           else (Some TimeoutUnregistering, w))"
    by (simp add: UnregisterConnection_def select_def two')
  have c: "fst (UnregisterConnection ev connID (w\<lparr>hub := (hub w)\<lparr>connections := reg\<rparr>\<rparr>))
       = fst (UnregisterConnection ev connID w)"
    by (simp add: UnregisterConnection_def select_def IsRunning_def two')
  show ?thesis by (rule conjI [OF a conjI [OF b c]])
qed

text \<open>
  The theorem on the started hub, whose unregister channel is empty and whose context is
  live, at an id it does not hold.
\<close>

theorem unregister_unknown_id_witness:
  "connections (hub world2) ''ghost'' = None
   \<and> handleUnregister ev0 ''ghost'' world2 = world2
   \<and> IsRunning world2 \<and> has_room (unregister (hub world2)) \<and> \<not> hub_ctx_done (hub world2)
   \<and> UnregisterConnection ev0 ''ghost'' world2 =
       (None,
        world2\<lparr>hub := (hub world2)
                  \<lparr>unregister := enqueue ''ghost'' (unregister (hub world2))\<rparr>\<rparr>)"
proof -
  have h: "has_room (unregister (hub world2)) \<and> \<not> hub_ctx_done (hub world2)"
    by (simp add: world2_def world0_def handleRegister_def Start_def New_def hub_log_def go_def
        Let_def has_room_def make_chan_def)
  have n: "connections (hub world2) ''ghost'' = None"
    by (simp add: world2_registry)
  from unregister_unknown_id [of world2 "''ghost''" ev0] h n world2_registry
  show ?thesis by simp
qed

text \<open>
  The claim as stated fails on a running hub whose context is cancelled, where the
  \<^verbatim>\<open>select\<close> may take the shutting-down case, and on a running hub whose unregister
  channel is full, where the timer fires: in both the id is unknown and an error comes
  back.
\<close>

theorem unregister_unknown_id_counterexample:
  "IsRunning world_cancelled
   \<and> GetConnection ''ghost'' world_cancelled = None
   \<and> fst (UnregisterConnection (ev0\<lparr>pick := 1\<rparr>) ''ghost'' world_cancelled)
       = Some HubShuttingDown
   \<and> IsRunning world_full
   \<and> GetConnection ''ghost'' world_full = None
   \<and> fst (UnregisterConnection ev0 ''ghost'' world_full) = Some TimeoutUnregistering"
  by (simp add: world_cancelled_def world_full_def world2_def world0_def handleRegister_def
      Start_def New_def hub_log_def go_def Let_def IsRunning_def GetConnection_def
      UnregisterConnection_def select_def has_room_def make_chan_def ev0_def heap0_def
      sse0_def ws0_def)

section \<open>The hub: operations on a hub that is not running\<close>

text \<open>The three operations that enqueue test the running flag first.\<close>

lemma guarded_operations:
  "\<not> IsRunning w \<Longrightarrow>
     RegisterConnection ev conn w = (Some HubNotRunning, w)
     \<and> UnregisterConnection ev connID w = (Some HubNotRunning, w)
     \<and> Broadcast ev ctx message w = (Some HubNotRunning, w)"
  by (simp add: RegisterConnection_def UnregisterConnection_def Broadcast_def)

lemma BroadcastToType_no_error: "fst (BroadcastToType ks ctx connType message w) = None"
  by (simp add: BroadcastToType_def Let_def)

text \<open>
  C1.  \<^verbatim>\<open>BroadcastToType\<close> and \<^verbatim>\<open>SendToConnection\<close> do not test the running flag.
  On the hub that was never started \<^verbatim>\<open>BroadcastToType\<close> returns no error, and
  \<^verbatim>\<open>SendToConnection\<close> returns the not-found error instead of the not-running one.
\<close>

theorem not_running_guard_missing:
  "\<not> IsRunning world0
   \<and> fst (BroadcastToType [] Live ''sse'' (Some msg0) world0) = None
   \<and> fst (SendToConnection ev0 ev0 Live ''c1'' (Some msg0) world0)
       = Some (ConnectionNotFound ''c1'')"
  by (simp add: world0_def New_def IsRunning_def BroadcastToType_def SendToConnection_def
      GetConnection_def GetConnectionsByType_def hub_log_def Let_def)

end
